theory Spec2Isabelle
  imports Main
begin

section \<open>Python values shared by the server and the protocol\<close>

text \<open>
  A Python \<open>str\<close> is a sequence of code points, a \<open>bytes\<close> object a sequence of
  8-bit values; HOL's \<open>char\<close> is exactly such an 8-bit value, so \<open>bytes\<close> is \<open>string\<close>.
\<close>

type_synonym pystr = "nat list"
type_synonym bytes = string

definition str :: "string \<Rightarrow> pystr" where
  "str s = map of_char s"

text \<open>
  Exceptions. \<open>handle_line\<close> tells three kinds apart: \<open>DontStopException\<close>, the
  classes below \<open>Exception\<close> (caught by \<open>except Exception\<close>), and the classes that are
  only below \<open>BaseException\<close> (\<open>SystemExit\<close>, \<open>KeyboardInterrupt\<close>, \<open>GeneratorExit\<close>), which
  \<open>except Exception\<close> lets through. The string is the name of the class.
\<close>

datatype pyexn = DontStopException | Exception string | BaseException string

text \<open>
  A call into code that can change the state it reaches and can raise: it either returns a
  value or raises, and in both cases it leaves a state behind.
\<close>

datatype ('a, 's) result = Returns 'a 's | Raises pyexn 's

fun final_state :: "('a, 's) result \<Rightarrow> 's" where
  "final_state (Returns _ s) = s"
| "final_state (Raises _ s) = s"

subsection \<open>\<open>str.encode()\<close>: UTF-8, errors strict\<close>

definition encode_char :: "nat \<Rightarrow> bytes option" where
  "encode_char cp =
     (if cp < 0x80 then Some [char_of cp]
      else if cp < 0x800 then Some [char_of (0xC0 + cp div 64), char_of (0x80 + cp mod 64)]
      else if 0xD800 \<le> cp \<and> cp \<le> 0xDFFF then None
      else if cp < 0x10000 then
        Some [char_of (0xE0 + cp div 4096), char_of (0x80 + cp div 64 mod 64),
              char_of (0x80 + cp mod 64)]
      else if cp \<le> 0x10FFFF then
        Some [char_of (0xF0 + cp div 262144), char_of (0x80 + cp div 4096 mod 64),
              char_of (0x80 + cp div 64 mod 64), char_of (0x80 + cp mod 64)]
      else None)"

fun encode :: "pystr \<Rightarrow> pyexn + bytes" where
  "encode [] = Inr []"
| "encode (cp # cps) =
     (case encode_char cp of
        None \<Rightarrow> Inl (Exception ''UnicodeEncodeError'')
      | Some bs \<Rightarrow> (case encode cps of Inl e \<Rightarrow> Inl e | Inr rest \<Rightarrow> Inr (bs @ rest)))"

section \<open>The server: \<open>gsb/server.py\<close>\<close>

text \<open>
  Modelled from the spec: \<open>gsb/caller.py\<close> is absent. A Caller carries the connection, the
  raw text, the match of the last search and a captured exception; \<open>Caller(connection,
  text=line)\<close> leaves the last two \<open>None\<close>.
\<close>

record ('c, 'm) caller =
  connection :: "'c option"
  text' :: "pystr option"
  match :: "'m option"
  exception :: "pyexn option"

definition Caller :: "'c option \<Rightarrow> pystr option \<Rightarrow> ('c, 'm) caller" where
  "Caller c t = \<lparr>connection = c, text' = t, match = None, exception = None\<rparr>"

text \<open>
  What a hook, a handler or a transport method can reach and change: the Caller object it is
  handed, and everything else (\<open>'w\<close>: connections, game state, output already sent).
\<close>

record ('c, 'm, 'w) state =
  caller :: "('c, 'm) caller"
  world :: 'w

abbreviation set_match :: "'m option \<Rightarrow> ('c, 'm, 'w) state \<Rightarrow> ('c, 'm, 'w) state" where
  "set_match m s \<equiv> s\<lparr>caller := (caller s)\<lparr>match := m\<rparr>\<rparr>"

abbreviation set_exception :: "pyexn option \<Rightarrow> ('c, 'm, 'w) state \<Rightarrow> ('c, 'm, 'w) state" where
  "set_exception e s \<equiv> s\<lparr>caller := (caller s)\<lparr>exception := e\<rparr>\<rparr>"

text \<open>
  Modelled from the spec: \<open>gsb/command.py\<close> is absent. A Command is a compiled pattern
  (\<open>regexp\<close>), a handler that receives a Caller (\<open>func\<close>) and an optional guard, a
  predicate over the Caller (\<open>allowed\<close>). \<open>handle_line\<close> reads exactly these three
  attributes.
\<close>

record ('c, 'r, 'm, 'w) command =
  func :: "('c, 'm, 'w) state \<Rightarrow> (unit, ('c, 'm, 'w) state) result"
  regexp :: 'r
  allowed :: "(('c, 'm, 'w) state \<Rightarrow> bool) option"

text \<open>
  The server, as far as \<open>handle_line\<close> reads it: the command list and the three methods a
  subclass overrides. The list is the one a pass of \<open>handle_line\<close> iterates over; commands
  are registered before lines arrive, not by a handler during the pass.
\<close>

record ('c, 'r, 'm, 'w) server =
  commands :: "('c, 'r, 'm, 'w) command list"
  on_command :: "('c, 'm, 'w) state \<Rightarrow> (bool, ('c, 'm, 'w) state) result"
  on_error :: "('c, 'm, 'w) state \<Rightarrow> (unit, ('c, 'm, 'w) state) result"
  huh :: "('c, 'm, 'w) state \<Rightarrow> (unit, ('c, 'm, 'w) state) result"

text \<open>
  The calls \<open>handle_line\<close> makes, in the order it makes them. A command is named by its
  position in \<open>commands\<close>; an event that passes the Caller records the Caller as passed.
  \<open>Log_threw\<close> and \<open>Log_exception\<close> are the two calls of \<open>logger.exception\<close>.
\<close>

datatype ('c, 'm) event =
    On_command "('c, 'm) caller"
  | Search nat "'m option"
  | Func nat "('c, 'm) caller"
  | Log_threw nat
  | Log_exception pyexn
  | On_error "('c, 'm) caller"
  | Huh "('c, 'm) caller"

subsection \<open>\<open>format_text\<close> and \<open>notify\<close>\<close>

text \<open>
  \<open>args\<close> and \<open>kwargs\<close> are given as the substitution they perform (\<open>text % args\<close>, which
  can raise), \<open>None\<close> when the tuple or dict is empty.
\<close>

definition format_text ::
  "pystr \<Rightarrow> (pystr \<Rightarrow> pyexn + pystr) option \<Rightarrow> (pystr \<Rightarrow> pyexn + pystr) option
     \<Rightarrow> pyexn + pystr" where
  "format_text text args kwargs =
     (case (case args of None \<Rightarrow> Inr text | Some pos \<Rightarrow> pos text) of
        Inl e \<Rightarrow> Inl e
      | Inr text1 \<Rightarrow> (case kwargs of None \<Rightarrow> Inr text1 | Some named \<Rightarrow> named text1))"

definition notify ::
  "('c \<Rightarrow> bytes \<Rightarrow> 's \<Rightarrow> (unit, 's) result) \<Rightarrow> 'c option \<Rightarrow> pystr
     \<Rightarrow> (pystr \<Rightarrow> pyexn + pystr) option \<Rightarrow> (pystr \<Rightarrow> pyexn + pystr) option
     \<Rightarrow> 's \<Rightarrow> (unit, 's) result" where
  "notify sendLine con text args kwargs s =
     (case con of
        None \<Rightarrow> Returns () s
      | Some c \<Rightarrow>
          (case format_text text args kwargs of
             Inl e \<Rightarrow> Raises e s
           | Inr formatted \<Rightarrow>
               (case encode formatted of
                  Inl e \<Rightarrow> Raises e s
                | Inr line \<Rightarrow> sendLine c line s)))"

subsection \<open>The overridable methods as \<open>Server\<close> defines them\<close>

definition default_on_command ::
  "('c, 'm, 'w) state \<Rightarrow> (bool, ('c, 'm, 'w) state) result" where
  "default_on_command s = Returns True s"

definition default_on_error ::
  "('c \<Rightarrow> bytes \<Rightarrow> ('c, 'm, 'w) state \<Rightarrow> (unit, ('c, 'm, 'w) state) result)
     \<Rightarrow> ('c, 'm, 'w) state \<Rightarrow> (unit, ('c, 'm, 'w) state) result" where
  "default_on_error sendLine s =
     notify sendLine (connection (caller s)) (str ''There was an error with your command.'')
       None None s"

definition default_huh ::
  "('c \<Rightarrow> bytes \<Rightarrow> ('c, 'm, 'w) state \<Rightarrow> (unit, ('c, 'm, 'w) state) result)
     \<Rightarrow> ('c, 'm, 'w) state \<Rightarrow> (unit, ('c, 'm, 'w) state) result" where
  "default_huh sendLine s =
     notify sendLine (connection (caller s)) (str ''I don't understand that.'') None None s"

definition Server ::
  "('c \<Rightarrow> bytes \<Rightarrow> ('c, 'm, 'w) state \<Rightarrow> (unit, ('c, 'm, 'w) state) result)
     \<Rightarrow> ('c, 'r, 'm, 'w) command list \<Rightarrow> ('c, 'r, 'm, 'w) server" where
  "Server sendLine cmds =
     \<lparr>commands = cmds, on_command = default_on_command,
      on_error = default_on_error sendLine, huh = default_huh sendLine\<rparr>"

subsection \<open>\<open>Server.handle_line\<close>\<close>

text \<open>
  \<open>search\<close> is \<open>re.search\<close>, a parameter: it takes the compiled pattern and the line and
  gives the match object or \<open>None\<close>.

  One pass through the body of the \<open>for\<close> loop ends in \<open>continue\<close> (or by reaching the end
  of the body with the \<open>if\<close> not taken), in \<open>break\<close>, or in an exception that leaves
  \<open>handle_line\<close>.
\<close>

datatype control = Continue | Break

definition eligible ::
  "('r \<Rightarrow> pystr \<Rightarrow> 'm option) \<Rightarrow> pystr \<Rightarrow> ('c, 'r, 'm, 'w) command
     \<Rightarrow> ('c, 'm, 'w) state \<Rightarrow> bool" where
  "eligible search line cmd s =
     (let s1 = set_match (search (regexp cmd) line) s
      in match (caller s1) \<noteq> None \<and>
         (case allowed cmd of None \<Rightarrow> True | Some guard \<Rightarrow> guard s1))"

definition loop_body ::
  "('r \<Rightarrow> pystr \<Rightarrow> 'm option) \<Rightarrow> ('c, 'r, 'm, 'w) server \<Rightarrow> pystr \<Rightarrow> nat
     \<Rightarrow> ('c, 'r, 'm, 'w) command \<Rightarrow> ('c, 'm, 'w) state
     \<Rightarrow> ('c, 'm) event list \<times> (control, ('c, 'm, 'w) state) result" where
  "loop_body search srv line i cmd s =
     (let s1 = set_match (search (regexp cmd) line) s;
          searched = [Search i (match (caller s1))]
      in if match (caller s1) \<noteq> None \<and>
            (case allowed cmd of None \<Rightarrow> True | Some guard \<Rightarrow> guard s1)
         then
           (case func cmd s1 of
              Returns _ s2 \<Rightarrow> (searched @ [Func i (caller s1)], Returns Break s2)
            | Raises DontStopException s2 \<Rightarrow>
                (searched @ [Func i (caller s1)], Returns Continue s2)
            | Raises (Exception e) s2 \<Rightarrow>
                (let s3 = set_exception (Some (Exception e)) s2;
                     tr = searched @ [Func i (caller s1), Log_threw i,
                                      Log_exception (Exception e), On_error (caller s3)]
                 in case on_error srv s3 of
                      Returns _ s4 \<Rightarrow> (tr, Returns Break s4)
                    | Raises e' s4 \<Rightarrow> (tr, Raises e' s4))
            | Raises (BaseException e) s2 \<Rightarrow>
                (searched @ [Func i (caller s1)], Raises (BaseException e) s2))
         else (searched, Returns Continue s1))"

text \<open>
  The \<open>for\<close> loop over \<open>self.commands\<close> from position \<open>i\<close> on. \<open>Returns Continue\<close> is
  the loop running out of commands (the \<open>else\<close> clause is next), \<open>Returns Break\<close> is
  leaving it by \<open>break\<close>.
\<close>

fun for_commands ::
  "('r \<Rightarrow> pystr \<Rightarrow> 'm option) \<Rightarrow> ('c, 'r, 'm, 'w) server \<Rightarrow> pystr \<Rightarrow> nat
     \<Rightarrow> ('c, 'r, 'm, 'w) command list \<Rightarrow> ('c, 'm, 'w) state
     \<Rightarrow> ('c, 'm) event list \<times> (control, ('c, 'm, 'w) state) result" where
  "for_commands search srv line i [] s = ([], Returns Continue s)"
| "for_commands search srv line i (cmd # cmds) s =
     (case loop_body search srv line i cmd s of
        (tr, Returns Continue s') \<Rightarrow>
          (case for_commands search srv line (Suc i) cmds s' of (tr', r) \<Rightarrow> (tr @ tr', r))
      | (tr, Returns Break s') \<Rightarrow> (tr, Returns Break s')
      | (tr, Raises e s') \<Rightarrow> (tr, Raises e s'))"

text \<open>The loop with its \<open>else\<close> clause.\<close>

definition dispatch ::
  "('r \<Rightarrow> pystr \<Rightarrow> 'm option) \<Rightarrow> ('c, 'r, 'm, 'w) server \<Rightarrow> pystr \<Rightarrow> nat
     \<Rightarrow> ('c, 'r, 'm, 'w) command list \<Rightarrow> ('c, 'm, 'w) state
     \<Rightarrow> ('c, 'm) event list \<times> (unit, ('c, 'm, 'w) state) result" where
  "dispatch search srv line i cmds s =
     (case for_commands search srv line i cmds s of
        (tr, Returns Continue s') \<Rightarrow>
          (let s'' = set_match None s'
           in (tr @ [Huh (caller s'')], huh srv s''))
      | (tr, Returns Break s') \<Rightarrow> (tr, Returns () s')
      | (tr, Raises e s') \<Rightarrow> (tr, Raises e s'))"

definition handle_line ::
  "('r \<Rightarrow> pystr \<Rightarrow> 'm option) \<Rightarrow> ('c, 'r, 'm, 'w) server \<Rightarrow> 'c option \<Rightarrow> pystr \<Rightarrow> 'w
     \<Rightarrow> ('c, 'm) event list \<times> (unit, ('c, 'm, 'w) state) result" where
  "handle_line search srv con line w =
     (let s = \<lparr>caller = Caller con (Some line), world = w\<rparr>
      in case on_command srv s of
           Raises e s' \<Rightarrow> ([On_command (caller s)], Raises e s')
         | Returns go s' \<Rightarrow>
             (if go
              then (case dispatch search srv line 0 (commands srv) s' of
                      (tr, r) \<Rightarrow> (On_command (caller s) # tr, r))
              else ([On_command (caller s)], Returns () s')))"

text \<open>Reading a trace: the handlers that ran, the patterns that were tried.\<close>

fun funcs_called :: "('c, 'm) event list \<Rightarrow> nat list" where
  "funcs_called [] = []"
| "funcs_called (Func i _ # tr) = i # funcs_called tr"
| "funcs_called (_ # tr) = funcs_called tr"

fun searched :: "('c, 'm) event list \<Rightarrow> nat list" where
  "searched [] = []"
| "searched (Search i _ # tr) = i # searched tr"
| "searched (_ # tr) = searched tr"

fun is_On_error :: "('c, 'm) event \<Rightarrow> bool" where
  "is_On_error (On_error _) = True"
| "is_On_error _ = False"

fun is_Huh :: "('c, 'm) event \<Rightarrow> bool" where
  "is_Huh (Huh _) = True"
| "is_Huh _ = False"

fun is_Log :: "('c, 'm) event \<Rightarrow> bool" where
  "is_Log (Log_threw _) = True"
| "is_Log (Log_exception _) = True"
| "is_Log _ = False"

text \<open>
  The \<open>Search\<close> events of passing over the commands \<open>cmds\<close>, which sit at the positions
  \<open>i\<close>, \<open>i + 1\<close>, ... of the list.
\<close>

fun searches ::
  "('r \<Rightarrow> pystr \<Rightarrow> 'm option) \<Rightarrow> pystr \<Rightarrow> nat \<Rightarrow> ('c, 'r, 'm, 'w) command list
     \<Rightarrow> ('c, 'm) event list" where
  "searches search line i [] = []"
| "searches search line i (cmd # cmds) =
     Search i (search (regexp cmd) line) # searches search line (Suc i) cmds"

text \<open>
  An instance of \<open>search\<close> for running the model: \<open>re.search\<close> on a pattern without
  metacharacters finds the first occurrence of the pattern in the line; the match is
  given as the position where it starts.
\<close>

fun literal_search :: "pystr \<Rightarrow> pystr \<Rightarrow> nat option" where
  "literal_search pat [] = (if pat = [] then Some 0 else None)"
| "literal_search pat (x # xs) =
     (if take (length pat) (x # xs) = pat then Some 0
      else map_option Suc (literal_search pat xs))"

section \<open>The menu\<close>










text \<open>
  Modelled from the spec: the menu as a parser. The winning item's action is called with
  a Caller whose \<open>match\<close> is that item; the two failures notify the connection and call no
  action. The spec does not fix the two messages: \<open>message\<close> gives them.
\<close>

datatype condition = No_match | Many_matches

datatype ('c) menu_call =
    Action nat "('c, nat) caller"
  | Notice condition


fun is_Action :: "'c menu_call \<Rightarrow> bool" where
  "is_Action (Action _ _) = True"
| "is_Action _ = False"

section \<open>\<open>bytes.decode\<close>\<close>

text \<open>
  \<open>decode_args\<close> is a pair of an encoding and an error handler. The encodings modelled are
  UTF-8 (what \<open>sys.getdefaultencoding()\<close> gives), ASCII and Latin-1; the handlers are
  \<open>strict\<close>, \<open>ignore\<close> and \<open>replace\<close>.
\<close>

datatype encoding = UTF8 | ASCII | Latin1

datatype errors = Strict | Ignore | Replace

definition continuation :: "nat \<Rightarrow> bool" where
  "continuation b = (0x80 \<le> b \<and> b \<le> 0xBF)"

text \<open>
  One step of the UTF-8 decoder at the head of a non-empty input: either a code point and
  the number of bytes it took, or no code point and the number of bytes of the error range
  (an invalid start byte; a start byte with the continuation bytes that are valid after it,
  when the next byte is not; all that is left, when the input ends inside a sequence).
\<close>

fun utf8_step :: "nat list \<Rightarrow> nat option \<times> nat" where
  "utf8_step [] = (None, 0)"
| "utf8_step (b # bs) =
     (if b < 0x80 then (Some b, 1)
      else if b < 0xC2 then (None, 1)
      else if b < 0xE0 then
        (case bs of
           [] \<Rightarrow> (None, 1)
         | b2 # _ \<Rightarrow>
             if continuation b2 then (Some ((b - 0xC0) * 64 + (b2 - 0x80)), 2) else (None, 1))
      else if b < 0xF0 then
        (case bs of
           [] \<Rightarrow> (None, 1)
         | b2 # bs2 \<Rightarrow>
             if \<not> continuation b2 \<or> (if b2 < 0xA0 then b = 0xE0 else b = 0xED) then (None, 1)
             else
               (case bs2 of
                  [] \<Rightarrow> (None, 2)
                | b3 # _ \<Rightarrow>
                    if continuation b3
                    then (Some ((b - 0xE0) * 4096 + (b2 - 0x80) * 64 + (b3 - 0x80)), 3)
                    else (None, 2)))
      else if b < 0xF5 then
        (case bs of
           [] \<Rightarrow> (None, 1)
         | b2 # bs2 \<Rightarrow>
             if \<not> continuation b2 \<or> (if b2 < 0x90 then b = 0xF0 else b = 0xF4) then (None, 1)
             else
               (case bs2 of
                  [] \<Rightarrow> (None, 2)
                | b3 # bs3 \<Rightarrow>
                    if \<not> continuation b3 then (None, 2)
                    else
                      (case bs3 of
                         [] \<Rightarrow> (None, 3)
                       | b4 # _ \<Rightarrow>
                           if continuation b4
                           then (Some ((b - 0xF0) * 262144 + (b2 - 0x80) * 4096
                                        + (b3 - 0x80) * 64 + (b4 - 0x80)), 4)
                           else (None, 3))))
      else (None, 1))"

text \<open>
  What an error handler does with an error range: \<open>strict\<close> raises, \<open>ignore\<close> drops the
  range, \<open>replace\<close> puts U+FFFD in its place.
\<close>

definition on_decode_error :: "errors \<Rightarrow> (pyexn + pystr) \<Rightarrow> pyexn + pystr" where
  "on_decode_error errs rest =
     (case errs of
        Strict \<Rightarrow> Inl (Exception ''UnicodeDecodeError'')
      | Ignore \<Rightarrow> rest
      | Replace \<Rightarrow> (case rest of Inl e \<Rightarrow> Inl e | Inr t \<Rightarrow> Inr (0xFFFD # t)))"

fun utf8_decode :: "errors \<Rightarrow> nat list \<Rightarrow> pyexn + pystr" where
  "utf8_decode errs [] = Inr []"
| "utf8_decode errs (b # bs) =
     (case utf8_step (b # bs) of
        (Some cp, n) \<Rightarrow>
          (case utf8_decode errs (drop (n - 1) bs) of Inl e \<Rightarrow> Inl e | Inr t \<Rightarrow> Inr (cp # t))
      | (None, n) \<Rightarrow> on_decode_error errs (utf8_decode errs (drop (n - 1) bs)))"

fun ascii_decode :: "errors \<Rightarrow> nat list \<Rightarrow> pyexn + pystr" where
  "ascii_decode errs [] = Inr []"
| "ascii_decode errs (b # bs) =
     (if b < 0x80
      then (case ascii_decode errs bs of Inl e \<Rightarrow> Inl e | Inr t \<Rightarrow> Inr (b # t))
      else on_decode_error errs (ascii_decode errs bs))"

definition decode :: "encoding \<times> errors \<Rightarrow> bytes \<Rightarrow> pyexn + pystr" where
  "decode args line =
     (case args of
        (UTF8, errs) \<Rightarrow> utf8_decode errs (map of_char line)
      | (ASCII, errs) \<Rightarrow> ascii_decode errs (map of_char line)
      | (Latin1, errs) \<Rightarrow> Inr (map of_char line))"

section \<open>The connection: \<open>gsb/protocol.py\<close>\<close>

text \<open>
  The attributes of a \<open>Protocol\<close> object. \<open>parser\<close> is the attribute \<open>_parser\<close>, a reference
  to a parser or \<open>None\<close>. \<open>logger\<close> is not an \<open>attrib\<close>: \<open>connectionMade\<close> creates it, named
  after host and port, and until then reading it raises \<open>AttributeError\<close>. The attribute
  \<open>server\<close> is the one server of the state below.
\<close>

record 'p protocol =
  host :: string
  port :: nat
  parser :: "'p option"
  encode_args :: "encoding \<times> errors"
  decode_args :: "encoding \<times> errors"
  logger :: "(string \<times> nat) option"

text \<open>
  The constructor that \<open>attrs\<close> generates: \<open>parser\<close> has no default and no validator, the
  two codec attributes default to the system encoding with \<open>replace\<close> and \<open>ignore\<close>.
\<close>

definition Protocol :: "string \<Rightarrow> nat \<Rightarrow> 'p option \<Rightarrow> 'p protocol" where
  "Protocol h n p =
     \<lparr>host = h, port = n, parser = p, encode_args = (UTF8, Replace),
      decode_args = (UTF8, Ignore), logger = None\<rparr>"

text \<open>
  The objects a method of a connection and the code it calls can reach: the Protocol
  objects by identity, the server's \<open>connections\<close> list and \<open>default_parser\<close>, and the rest
  (\<open>'w\<close>).

  The setter reads \<open>self.server.default_parser\<close>. The class \<open>Server\<close> of \<open>server.py\<close>
  declares no such attribute: for a server of that class the field is \<open>None\<close>, and reading
  the attribute raises \<open>AttributeError\<close>. It is \<open>Some d\<close> for a server that has been given
  the attribute (by a subclass, or by assignment to the instance), \<open>d\<close> being the parser it
  holds.
\<close>

record ('c, 'p, 'w) system =
  protocols :: "'c \<Rightarrow> 'p protocol"
  connections :: "'c list"
  default_parser :: "'p option"
  env :: 'w

abbreviation parser_of :: "('c, 'p, 'w) system \<Rightarrow> 'c \<Rightarrow> 'p option" where
  "parser_of s c \<equiv> parser (protocols s c)"

abbreviation set_parser :: "'c \<Rightarrow> 'p option \<Rightarrow> ('c, 'p, 'w) system \<Rightarrow> ('c, 'p, 'w) system" where
  "set_parser c v s \<equiv> s\<lparr>protocols := (protocols s)(c := (protocols s c)\<lparr>parser := v\<rparr>)\<rparr>"


text \<open>
  Modelled from the spec: the parser classes are absent. A parser has an attach hook, a
  detach hook and a line handler, each taking the connection. They are code of the
  application, like the server's \<open>on_connect\<close> and \<open>on_disconnect\<close> and the transport's
  \<open>sendLine\<close>: each is a call that can change whatever it reaches and can raise.
\<close>

record ('c, 'p, 'm, 'w) hooks =
  on_attach :: "'p \<Rightarrow> 'c \<Rightarrow> 'p option \<Rightarrow> ('c, 'p, 'w) system \<Rightarrow> (unit, ('c, 'p, 'w) system) result"
  on_detach :: "'p \<Rightarrow> 'c \<Rightarrow> 'p option \<Rightarrow> ('c, 'p, 'w) system \<Rightarrow> (unit, ('c, 'p, 'w) system) result"
  parser_handle_line ::
    "'p \<Rightarrow> 'c \<Rightarrow> pystr \<Rightarrow> ('c, 'p, 'w) system \<Rightarrow> (unit, ('c, 'p, 'w) system) result"
  on_connect :: "('c, 'm) caller \<Rightarrow> ('c, 'p, 'w) system \<Rightarrow> (unit, ('c, 'p, 'w) system) result"
  on_disconnect :: "('c, 'm) caller \<Rightarrow> ('c, 'p, 'w) system \<Rightarrow> (unit, ('c, 'p, 'w) system) result"
  sendLine :: "'c \<Rightarrow> bytes \<Rightarrow> ('c, 'p, 'w) system \<Rightarrow> (unit, ('c, 'p, 'w) system) result"

text \<open>The calls a method of the connection makes, in order, with their arguments.\<close>

datatype ('c, 'p) call =
    Detach 'p 'c "'p option"
  | Warning 'p
  | Attach 'p 'c "'p option"
  | Handle_line 'p 'c pystr
  | On_connect 'c
  | On_disconnect 'c
  | Log_info string

subsection \<open>The \<open>parser\<close> property\<close>

definition parser_getter :: "'c \<Rightarrow> ('c, 'p, 'w) system \<Rightarrow> 'p option" where
  "parser_getter self s = parser (protocols s self)"

definition parser_setter ::
  "('c, 'p, 'm, 'w) hooks \<Rightarrow> 'c \<Rightarrow> 'p option \<Rightarrow> ('c, 'p, 'w) system
     \<Rightarrow> ('c, 'p) call list \<times> (unit, ('c, 'p, 'w) system) result" where
  "parser_setter hk self value s =
     (let old_parser = parser (protocols s self)
      in case (case old_parser of
                 None \<Rightarrow> ([], Returns () s)
               | Some old \<Rightarrow> ([Detach old self value], on_detach hk old self value s)) of
           (tr1, Raises e s1) \<Rightarrow> (tr1, Raises e s1)
         | (tr1, Returns _ s1) \<Rightarrow>
             (case (case value of
                      Some v \<Rightarrow> ([], Inr v)
                    | None \<Rightarrow>
                        (case default_parser s1 of
                           None \<Rightarrow> ([], Inl (Exception ''AttributeError''))
                         | Some d \<Rightarrow>
                             (case logger (protocols s1 self) of
                                None \<Rightarrow> ([], Inl (Exception ''AttributeError''))
                              | Some _ \<Rightarrow> ([Warning d], Inr d)))) of
                (tr2, Inl e) \<Rightarrow> (tr1 @ tr2, Raises e s1)
              | (tr2, Inr v) \<Rightarrow>
                  (tr1 @ tr2 @ [Attach v self old_parser],
                   on_attach hk v self old_parser (set_parser self (Some v) s1))))"

subsection \<open>The events the transport delivers\<close>

definition lineReceived ::
  "('c, 'p, 'm, 'w) hooks \<Rightarrow> 'c \<Rightarrow> bytes \<Rightarrow> ('c, 'p, 'w) system
     \<Rightarrow> ('c, 'p) call list \<times> (unit, ('c, 'p, 'w) system) result" where
  "lineReceived hk self line s =
     (case decode (decode_args (protocols s self)) line of
        Inl e \<Rightarrow> ([], Raises e s)
      | Inr line' \<Rightarrow>
          (case parser_getter self s of
             None \<Rightarrow> ([], Raises (Exception ''AttributeError'') s)
           | Some p \<Rightarrow> ([Handle_line p self line'], parser_handle_line hk p self line' s)))"


text \<open>
  \<open>self in self.server.connections\<close> and \<open>connections.remove(self)\<close> compare by identity
  and then by \<open>==\<close>. \<open>Protocol\<close> is an \<open>attrs\<close> class, so \<open>==\<close> compares the declared
  attributes (not the logger, which is not one; the server is the same for all), and the
  element found and removed is the first one that is \<open>self\<close> or equal to it.
\<close>

definition attrs_eq :: "'p protocol \<Rightarrow> 'p protocol \<Rightarrow> bool" where
  "attrs_eq a b =
     (host a = host b \<and> port a = port b \<and> parser a = parser b
      \<and> encode_args a = encode_args b \<and> decode_args a = decode_args b)"

definition same_connection :: "('c, 'p, 'w) system \<Rightarrow> 'c \<Rightarrow> 'c \<Rightarrow> bool" where
  "same_connection s self c = (c = self \<or> attrs_eq (protocols s c) (protocols s self))"

fun remove_first :: "('a \<Rightarrow> bool) \<Rightarrow> 'a list \<Rightarrow> 'a list" where
  "remove_first P [] = []"
| "remove_first P (x # xs) = (if P x then xs else x # remove_first P xs)"

definition connectionLost ::
  "('c, 'p, 'm, 'w) hooks \<Rightarrow> 'c \<Rightarrow> string \<Rightarrow> ('c, 'p, 'w) system
     \<Rightarrow> ('c, 'p) call list \<times> (unit, ('c, 'p, 'w) system) result" where
  "connectionLost hk self reason s =
     (let s1 = (if list_ex (same_connection s self) (connections s)
                then s\<lparr>connections := remove_first (same_connection s self) (connections s)\<rparr>
                else s)
      in case logger (protocols s1 self) of
           None \<Rightarrow> ([], Raises (Exception ''AttributeError'') s1)
         | Some _ \<Rightarrow>
             ([Log_info reason, On_disconnect self],
              on_disconnect hk (Caller (Some self) None) s1))"






fun is_Detach :: "('c, 'p) call \<Rightarrow> bool" where
  "is_Detach (Detach _ _ _) = True"
| "is_Detach _ = False"

subsection \<open>A small server for running the model\<close>

text \<open>
  Connections and matches are numbers, the world is the list of the lines sent and of the
  notes the handlers leave, in order.
\<close>

type_synonym ex_state = "(nat, nat, string list) state"

definition send_line :: "nat \<Rightarrow> bytes \<Rightarrow> ex_state \<Rightarrow> (unit, ex_state) result" where
  "send_line c line s = Returns () (s\<lparr>world := world s @ [line]\<rparr>)"

definition leave_note :: "string \<Rightarrow> ex_state \<Rightarrow> (unit, ex_state) result" where
  "leave_note x s = Returns () (s\<lparr>world := world s @ [x]\<rparr>)"

definition cmd_lo :: "(nat, pystr, nat, string list) command" where
  "cmd_lo = \<lparr>func = leave_note ''lo'', regexp = str ''lo'', allowed = None\<rparr>"

definition cmd_look :: "(nat, pystr, nat, string list) command" where
  "cmd_look = \<lparr>func = leave_note ''look'', regexp = str ''look'', allowed = None\<rparr>"

definition cmd_quit :: "(nat, pystr, nat, string list) command" where
  "cmd_quit = \<lparr>func = (\<lambda>s. Raises (BaseException ''SystemExit'') s), regexp = str ''quit'',
      allowed = None\<rparr>"

definition cmd_admin :: "(nat, pystr, nat, string list) command" where
  "cmd_admin = \<lparr>func = leave_note ''admin'', regexp = str ''o'',
      allowed = Some (\<lambda>s. connection (caller s) = Some 1)\<rparr>"

definition cmd_skip :: "(nat, pystr, nat, string list) command" where
  "cmd_skip = \<lparr>func = (\<lambda>s. Raises DontStopException (s\<lparr>world := world s @ [''skip'']\<rparr>)),
      regexp = str ''lo'', allowed = None\<rparr>"

definition cmd_break :: "(nat, pystr, nat, string list) command" where
  "cmd_break = \<lparr>func = (\<lambda>s. Raises (Exception ''ValueError'') s), regexp = str ''look'',
      allowed = None\<rparr>"

definition look_caller :: "nat option \<Rightarrow> (nat, nat) caller" where
  "look_caller m = \<lparr>connection = Some 0, text' = Some (str ''look''), match = m,
      exception = None\<rparr>"

subsection \<open>A small connection for running the model\<close>

text \<open>
  Connections are numbers, parsers are named by strings, the rest of the world is the list
  of what the callbacks did, in order.
\<close>

type_synonym ex_system = "(nat, string, string list) system"

definition ex_hooks :: "(nat, string, nat, string list) hooks" where
  "ex_hooks =
     \<lparr>on_attach = (\<lambda>p c old s. Returns () (s\<lparr>env := env s @ [''attach '' @ p]\<rparr>)),
      on_detach = (\<lambda>p c new s. Returns () (s\<lparr>env := env s @ [''detach '' @ p]\<rparr>)),
      parser_handle_line = (\<lambda>p c line s. Returns () (s\<lparr>env := env s @ [''line for '' @ p]\<rparr>)),
      on_connect = (\<lambda>cl s. Returns () s),
      on_disconnect = (\<lambda>cl s. Returns () s),
      sendLine = (\<lambda>c line s. Returns () (s\<lparr>env := env s @ [line]\<rparr>))\<rparr>"

definition ex_system :: "string option \<Rightarrow> (string \<times> nat) option \<Rightarrow> ex_system" where
  "ex_system p l =
     \<lparr>protocols = (\<lambda>c. (Protocol ''127.0.0.1'' 1987 p)\<lparr>logger := l\<rparr>), connections = [],
      default_parser = Some ''main'', env = []\<rparr>"

text \<open>The same connection on a server of the class \<open>Server\<close> as \<open>server.py\<close> has it.\<close>

definition plain_system :: "string option \<Rightarrow> (string \<times> nat) option \<Rightarrow> ex_system" where
  "plain_system p l = (ex_system p l)\<lparr>default_parser := None\<rparr>"

subsection \<open>The menu of the test\<close>




section \<open>Properties of \<open>handle_line\<close>\<close>

lemma loop_body_ineligible:
  "\<not> eligible search line cmd s \<Longrightarrow>
   loop_body search srv line i cmd s =
     ([Search i (search (regexp cmd) line)],
      Returns Continue (set_match (search (regexp cmd) line) s))"
  by (auto simp: loop_body_def eligible_def Let_def)

lemma eligible_set_match [simp]:
  "eligible search line cmd (set_match m s) = eligible search line cmd s"
  by (simp add: eligible_def Let_def)

lemma for_commands_ineligible:
  "\<forall>p \<in> set pre. \<not> eligible search line p s \<Longrightarrow>
   \<exists>m. for_commands search srv line i pre s =
     (searches search line i pre, Returns Continue (set_match m s))"
proof (induction pre arbitrary: i s)
  case Nil
  have "s = set_match (match (caller s)) s" by simp
  then show ?case by (metis for_commands.simps(1) searches.simps(1))
next
  case (Cons p pre)
  let ?s1 = "set_match (search (regexp p) line) s"
  from Cons.prems have np: "\<not> eligible search line p s"
    and rest: "\<forall>q \<in> set pre. \<not> eligible search line q ?s1" by simp_all
  from Cons.IH [OF rest, of "Suc i"] obtain m where
    m: "for_commands search srv line (Suc i) pre ?s1 =
          (searches search line (Suc i) pre, Returns Continue (set_match m ?s1))" by blast
  have "set_match m ?s1 = set_match m s" by simp
  with m np show ?case by (auto simp: loop_body_ineligible)
qed

lemma for_commands_append:
  "for_commands search srv line i (pre @ post) s =
     (case for_commands search srv line i pre s of
        (tr, Returns Continue s') \<Rightarrow>
          (case for_commands search srv line (i + length pre) post s' of
             (tr', r) \<Rightarrow> (tr @ tr', r))
      | (tr, Returns Break s') \<Rightarrow> (tr, Returns Break s')
      | (tr, Raises e s') \<Rightarrow> (tr, Raises e s'))"
proof (induction pre arbitrary: i s)
  case Nil
  then show ?case by (simp split: prod.splits)
next
  case (Cons p pre)
  show ?case
    by (simp add: Cons.IH split: prod.splits result.splits control.splits)
qed

lemma funcs_called_append [simp]:
  "funcs_called (tr @ tr') = funcs_called tr @ funcs_called tr'"
  by (induction tr rule: funcs_called.induct) simp_all

lemma searched_append [simp]:
  "searched (tr @ tr') = searched tr @ searched tr'"
  by (induction tr rule: searched.induct) simp_all

lemma funcs_called_searches [simp]:
  "funcs_called (searches search line i cmds) = []"
  by (induction cmds arbitrary: i) simp_all

lemma searched_searches [simp]:
  "searched (searches search line i cmds) = [i ..< i + length cmds]"
  by (induction cmds arbitrary: i) (simp_all add: upt_rec)

lemma filter_Huh_searches [simp]:
  "filter is_Huh (searches search line i cmds) = []"
  by (induction cmds arbitrary: i) simp_all

lemma filter_On_error_searches [simp]:
  "filter is_On_error (searches search line i cmds) = []"
  by (induction cmds arbitrary: i) simp_all

lemma filter_Log_searches [simp]:
  "filter is_Log (searches search line i cmds) = []"
  by (induction cmds arbitrary: i) simp_all

lemma encode_char_ascii:
  "of_char c < (128::nat) \<Longrightarrow> encode_char (of_char c) = Some [c]"
  by (simp add: encode_char_def)

lemma encode_ascii:
  "\<forall>c \<in> set s. of_char c < (128::nat) \<Longrightarrow> encode (str s) = Inr s"
  by (induction s) (simp_all add: str_def encode_char_ascii)

lemma encode_error_message:
  "encode (str ''There was an error with your command.'') =
     Inr ''There was an error with your command.''"
  by (rule encode_ascii) simp

lemma encode_huh_message:
  "encode (str ''I don't understand that.'') = Inr ''I don't understand that.''"
  by (rule encode_ascii) simp

text \<open>
  Claim C7. When the \<open>on_command\<close> hook returns false for a line, \<open>handle_line\<close> does
  nothing more: the trace holds the call of the hook and nothing else (no pattern is
  searched, no handler runs, \<open>huh\<close> is not called), and the state is the one the hook left.
\<close>

theorem on_command_false_suppresses_dispatch:
  assumes "on_command srv \<lparr>caller = Caller con (Some line), world = w\<rparr> = Returns False s"
  shows "handle_line search srv con line w =
           ([On_command (Caller con (Some line))], Returns () s)
         \<and> searched (fst (handle_line search srv con line w)) = []
         \<and> funcs_called (fst (handle_line search srv con line w)) = []
         \<and> filter is_Huh (fst (handle_line search srv con line w)) = []"
  using assms by (simp add: handle_line_def)

lemma dispatch_ineligible:
  assumes "\<forall>p \<in> set cmds. \<not> eligible search line p s"
  shows "dispatch search srv line i cmds s =
           (searches search line i cmds @ [Huh (caller (set_match None s))],
            huh srv (set_match None s))"
proof -
  from for_commands_ineligible [OF assms] obtain m where
    "for_commands search srv line i cmds s =
       (searches search line i cmds, Returns Continue (set_match m s))" by blast
  then show ?thesis by (simp add: dispatch_def)
qed

text \<open>
  Claim C5. When \<open>on_command\<close> lets the line through and no command is eligible (for each
  one the search fails or the guard is false), every pattern is searched in order, no
  handler runs, \<open>match\<close> is set to \<open>None\<close> and \<open>huh\<close> is called once, with that Caller, as
  the last call. The \<open>huh\<close> of \<open>Server\<close> sends the connection the line
  \<open>I don't understand that.\<close>
\<close>

theorem no_eligible_command_runs_huh:
  assumes go: "on_command srv \<lparr>caller = Caller con (Some line), world = w\<rparr> = Returns True s"
    and none: "\<forall>cmd \<in> set (commands srv). \<not> eligible search line cmd s"
  shows "handle_line search srv con line w =
           (On_command (Caller con (Some line)) # searches search line 0 (commands srv)
              @ [Huh (caller (set_match None s))],
            huh srv (set_match None s))
         \<and> match (caller (set_match None s)) = None
         \<and> funcs_called (fst (handle_line search srv con line w)) = []
         \<and> length (filter is_Huh (fst (handle_line search srv con line w))) = 1
         \<and> (\<forall>send c. huh srv = default_huh send \<and> connection (caller s) = Some c \<longrightarrow>
               snd (handle_line search srv con line w) =
                 send c ''I don't understand that.'' (set_match None s))"
proof -
  have run: "handle_line search srv con line w =
           (On_command (Caller con (Some line)) # searches search line 0 (commands srv)
              @ [Huh (caller (set_match None s))],
            huh srv (set_match None s))"
    using go by (simp add: handle_line_def dispatch_ineligible [OF none])
  have dflt: "default_huh send (set_match None s) =
                send c ''I don't understand that.'' (set_match None s)"
    if "connection (caller s) = Some c" for send c
    using that by (simp add: default_huh_def notify_def format_text_def encode_huh_message)
  show ?thesis
    by (simp add: run dflt)
qed

lemma loop_body_eligible:
  assumes "eligible search line cmd s"
  shows "loop_body search srv line i cmd s =
     (let m = search (regexp cmd) line; s1 = set_match m s
      in case func cmd s1 of
           Returns _ s2 \<Rightarrow> ([Search i m, Func i (caller s1)], Returns Break s2)
         | Raises DontStopException s2 \<Rightarrow> ([Search i m, Func i (caller s1)], Returns Continue s2)
         | Raises (Exception e) s2 \<Rightarrow>
             (let s3 = set_exception (Some (Exception e)) s2;
                  tr = [Search i m, Func i (caller s1), Log_threw i,
                        Log_exception (Exception e), On_error (caller s3)]
              in case on_error srv s3 of
                   Returns _ s4 \<Rightarrow> (tr, Returns Break s4)
                 | Raises e' s4 \<Rightarrow> (tr, Raises e' s4))
         | Raises (BaseException e) s2 \<Rightarrow>
             ([Search i m, Func i (caller s1)], Raises (BaseException e) s2))"
  using assms
  by (auto simp: loop_body_def eligible_def Let_def split: result.splits pyexn.splits)

lemma for_commands_stops:
  assumes "loop_body search srv line i cmd s = (tr, r)" and "\<forall>s'. r \<noteq> Returns Continue s'"
  shows "for_commands search srv line i (cmd # post) s = (tr, r)"
  using assms by (cases r) (auto split: control.splits)



lemma loop_body_Continue_events:
  assumes "loop_body search srv line i cmd s = (tr, Returns Continue s')"
  shows "filter is_On_error tr = [] \<and> filter is_Huh tr = [] \<and> filter is_Log tr = []
         \<and> set (searched tr) \<subseteq> {i}"
  using assms
  by (auto simp: loop_body_def Let_def split: if_splits result.splits pyexn.splits)

lemma for_commands_Continue_events:
  assumes "for_commands search srv line i cmds s = (tr, Returns Continue s')"
  shows "filter is_On_error tr = [] \<and> filter is_Huh tr = [] \<and> filter is_Log tr = []
         \<and> set (searched tr) \<subseteq> {i ..< i + length cmds}"
  using assms
proof (induction cmds arbitrary: i s tr)
  case Nil
  then show ?case by simp
next
  case (Cons cmd cmds)
  obtain tr1 r1 where lb: "loop_body search srv line i cmd s = (tr1, r1)"
    by (cases "loop_body search srv line i cmd s")
  from Cons.prems lb obtain s1 where r1: "r1 = Returns Continue s1"
    by (cases r1) (auto split: control.splits prod.splits)
  obtain tr2 r2 where fc: "for_commands search srv line (Suc i) cmds s1 = (tr2, r2)"
    by (cases "for_commands search srv line (Suc i) cmds s1")
  from Cons.prems lb r1 fc have tr: "tr = tr1 @ tr2" and r2: "r2 = Returns Continue s'"
    by simp_all
  note a = loop_body_Continue_events [OF lb [unfolded r1]]
  note b = Cons.IH [OF fc [unfolded r2]]
  from a b show ?case by (auto simp: tr)
qed

text \<open>
  Claim C3, amended to the faults that \<open>except Exception\<close> catches. Let the loop reach \<open>cmd\<close>
  (every command before it was passed over), let \<open>cmd\<close> be eligible and its handler raise
  an exception \<open>Exception e\<close>. Then the exception is stored in the Caller's \<open>exception\<close>
  field, it is logged, \<open>on_error\<close> is called with that Caller, once, as the last call of
  \<open>handle_line\<close>: no later pattern is searched and \<open>huh\<close> is not called. The outcome of
  \<open>handle_line\<close> is the outcome of \<open>on_error\<close>, and the \<open>on_error\<close> of \<open>Server\<close> sends the
  connection the line \<open>There was an error with your command.\<close>
\<close>

theorem handler_exception_goes_to_on_error:
  assumes go: "on_command srv \<lparr>caller = Caller con (Some line), world = w\<rparr> = Returns True s"
    and cmds: "commands srv = pre @ cmd # post"
    and reach: "for_commands search srv line 0 pre s = (tr0, Returns Continue s0)"
    and el: "eligible search line cmd s0"
    and raise: "func cmd (set_match (search (regexp cmd) line) s0) = Raises (Exception e) s2"
  shows "handle_line search srv con line w =
           (On_command (Caller con (Some line)) # tr0 @
              [Search (length pre) (search (regexp cmd) line),
               Func (length pre) (caller (set_match (search (regexp cmd) line) s0)),
               Log_threw (length pre), Log_exception (Exception e),
               On_error (caller (set_exception (Some (Exception e)) s2))],
            on_error srv (set_exception (Some (Exception e)) s2))
         \<and> exception (caller (set_exception (Some (Exception e)) s2)) = Some (Exception e)
         \<and> length (filter is_On_error (fst (handle_line search srv con line w))) = 1
         \<and> filter is_Huh (fst (handle_line search srv con line w)) = []
         \<and> (\<forall>j \<in> set (searched (fst (handle_line search srv con line w))). j \<le> length pre)
         \<and> (\<forall>send c. on_error srv = default_on_error send
                \<and> connection (caller s2) = Some c \<longrightarrow>
               snd (handle_line search srv con line w) =
                 send c ''There was an error with your command.''
                   (set_exception (Some (Exception e)) s2))"
proof -
  let ?k = "length pre"
  let ?m = "search (regexp cmd) line"
  let ?s3 = "set_exception (Some (Exception e)) s2"
  let ?ev = "[Search ?k ?m, Func ?k (caller (set_match ?m s0)), Log_threw ?k,
              Log_exception (Exception e), On_error (caller ?s3)]"
  have lb: "loop_body search srv line ?k cmd s0 =
              (?ev, case on_error srv ?s3 of Returns _ s4 \<Rightarrow> Returns Break s4
                                          | Raises e' s4 \<Rightarrow> Raises e' s4)"
    by (simp add: loop_body_eligible [OF el] raise Let_def split: result.splits)
  have fc: "for_commands search srv line ?k (cmd # post) s0 =
              (?ev, case on_error srv ?s3 of Returns _ s4 \<Rightarrow> Returns Break s4
                                          | Raises e' s4 \<Rightarrow> Raises e' s4)"
    by (rule for_commands_stops [OF lb]) (simp split: result.splits)
  have all: "for_commands search srv line 0 (commands srv) s =
               (tr0 @ ?ev, case on_error srv ?s3 of Returns _ s4 \<Rightarrow> Returns Break s4
                                                 | Raises e' s4 \<Rightarrow> Raises e' s4)"
    by (simp add: cmds for_commands_append reach fc del: for_commands.simps)
  have dp: "dispatch search srv line 0 (commands srv) s = (tr0 @ ?ev, on_error srv ?s3)"
    by (cases "on_error srv ?s3") (simp_all add: dispatch_def all)
  have run: "handle_line search srv con line w =
               (On_command (Caller con (Some line)) # tr0 @ ?ev, on_error srv ?s3)"
    using go by (simp add: handle_line_def dp)
  note ev0 = for_commands_Continue_events [OF reach]
  have dflt: "default_on_error send ?s3 =
                send c ''There was an error with your command.'' ?s3"
    if "connection (caller s2) = Some c" for send c
    using that
    by (simp add: default_on_error_def notify_def format_text_def encode_error_message)
  have le: "\<forall>j \<in> set (searched tr0). j \<le> ?k" using ev0 by auto
  show ?thesis
    using ev0 le by (simp add: run dflt)
qed

text \<open>
  A fault that is not an \<open>Exception\<close> is not caught: it leaves \<open>handle_line\<close> right after
  the handler's call, with the state the handler left, the Caller's \<open>exception\<close> field
  untouched and \<open>on_error\<close> not called.
\<close>

lemma base_exception_leaves_handle_line:
  assumes go: "on_command srv \<lparr>caller = Caller con (Some line), world = w\<rparr> = Returns True s"
    and cmds: "commands srv = pre @ cmd # post"
    and reach: "for_commands search srv line 0 pre s = (tr0, Returns Continue s0)"
    and el: "eligible search line cmd s0"
    and raise: "func cmd (set_match (search (regexp cmd) line) s0) = Raises (BaseException e) s2"
  shows "handle_line search srv con line w =
           (On_command (Caller con (Some line)) # tr0 @
              [Search (length pre) (search (regexp cmd) line),
               Func (length pre) (caller (set_match (search (regexp cmd) line) s0))],
            Raises (BaseException e) s2)"
proof -
  let ?k = "length pre"
  let ?ev = "[Search ?k (search (regexp cmd) line),
              Func ?k (caller (set_match (search (regexp cmd) line) s0))]"
  have lb: "loop_body search srv line ?k cmd s0 = (?ev, Raises (BaseException e) s2)"
    by (simp add: loop_body_eligible [OF el] raise Let_def)
  have fc: "for_commands search srv line ?k (cmd # post) s0 = (?ev, Raises (BaseException e) s2)"
    by (rule for_commands_stops [OF lb]) simp
  have all: "for_commands search srv line 0 (commands srv) s =
               (tr0 @ ?ev, Raises (BaseException e) s2)"
    by (simp add: cmds for_commands_append reach fc del: for_commands.simps)
  show ?thesis
    using go by (simp add: handle_line_def dispatch_def all)
qed

lemma loop_body_eligible_Func:
  assumes "eligible search line cmd s"
  shows "Func i (caller (set_match (search (regexp cmd) line) s))
           \<in> set (fst (loop_body search srv line i cmd s))"
  by (auto simp: loop_body_eligible [OF assms] Let_def split: result.splits pyexn.splits)

lemma for_commands_Cons_prefix:
  "\<exists>tr'. fst (for_commands search srv line i (cmd # cmds) s) =
           fst (loop_body search srv line i cmd s) @ tr'"
  by (auto split: prod.splits result.splits control.splits)

lemma dispatch_prefix:
  "\<exists>tr'. fst (dispatch search srv line i cmds s) =
           fst (for_commands search srv line i cmds s) @ tr'"
  by (auto simp: dispatch_def Let_def split: prod.splits result.splits control.splits)

lemma dispatch_returns:
  assumes el: "eligible search line cmd s"
    and ret: "func cmd (set_match (search (regexp cmd) line) s) = Returns () s2"
  shows "dispatch search srv line i (cmd # cmds) s =
           ([Search i (search (regexp cmd) line),
             Func i (caller (set_match (search (regexp cmd) line) s))], Returns () s2)"
  by (simp add: dispatch_def loop_body_eligible [OF el] ret Let_def)

text \<open>
  Claim C4. Let the loop reach \<open>cmd\<close>, let \<open>cmd\<close> be eligible and its handler raise
  \<open>DontStopException\<close>, leaving the state \<open>s1\<close>. Then \<open>handle_line\<close> goes on exactly as
  the dispatch over the remaining commands \<open>post\<close> from \<open>s1\<close>: the skipping command adds its
  search and the call of its handler to the trace and nothing else (no logging, no
  \<open>on_error\<close>, no \<open>huh\<close>, nothing sent), and the state is handed on as the handler left it.
  If the next command is eligible its handler is called; if that handler returns,
  \<open>handle_line\<close> returns with no call of \<open>huh\<close> or \<open>on_error\<close> and nothing logged.
\<close>

theorem skip_proceeds_to_next_command:
  assumes go: "on_command srv \<lparr>caller = Caller con (Some line), world = w\<rparr> = Returns True s"
    and cmds: "commands srv = pre @ cmd # post"
    and reach: "for_commands search srv line 0 pre s = (tr0, Returns Continue s0)"
    and el: "eligible search line cmd s0"
    and skip: "func cmd (set_match (search (regexp cmd) line) s0) = Raises DontStopException s1"
  shows "handle_line search srv con line w =
           (case dispatch search srv line (Suc (length pre)) post s1 of
              (tr', r) \<Rightarrow>
                (On_command (Caller con (Some line)) # tr0 @
                   [Search (length pre) (search (regexp cmd) line),
                    Func (length pre) (caller (set_match (search (regexp cmd) line) s0))] @ tr',
                 r))
         \<and> (\<forall>nxt rest. post = nxt # rest \<and> eligible search line nxt s1 \<longrightarrow>
               Func (Suc (length pre)) (caller (set_match (search (regexp nxt) line) s1))
                 \<in> set (fst (handle_line search srv con line w)))
         \<and> (\<forall>nxt rest s2. post = nxt # rest \<and> eligible search line nxt s1
                \<and> func nxt (set_match (search (regexp nxt) line) s1) = Returns () s2 \<longrightarrow>
               snd (handle_line search srv con line w) = Returns () s2
               \<and> filter is_Huh (fst (handle_line search srv con line w)) = []
               \<and> filter is_On_error (fst (handle_line search srv con line w)) = []
               \<and> filter is_Log (fst (handle_line search srv con line w)) = [])"
proof -
  let ?k = "length pre"
  let ?m = "search (regexp cmd) line"
  let ?ev = "[Search ?k ?m, Func ?k (caller (set_match ?m s0))]"
  have lb: "loop_body search srv line ?k cmd s0 = (?ev, Returns Continue s1)"
    by (simp add: loop_body_eligible [OF el] skip Let_def)
  obtain tr' r' where rest: "for_commands search srv line (Suc ?k) post s1 = (tr', r')"
    by (cases "for_commands search srv line (Suc ?k) post s1")
  have all: "for_commands search srv line 0 (commands srv) s = (tr0 @ ?ev @ tr', r')"
    by (simp add: cmds for_commands_append reach lb rest)
  have dp: "dispatch search srv line 0 (commands srv) s =
              (case dispatch search srv line (Suc ?k) post s1 of
                 (tr', r) \<Rightarrow> (tr0 @ ?ev @ tr', r))"
    by (cases r'; simp add: dispatch_def all rest Let_def split: control.splits)
  have run: "handle_line search srv con line w =
           (case dispatch search srv line (Suc ?k) post s1 of
              (tr', r) \<Rightarrow> (On_command (Caller con (Some line)) # tr0 @ ?ev @ tr', r))"
    using go by (simp add: handle_line_def dp split: prod.splits)
  note ev0 = for_commands_Continue_events [OF reach]
  have nxt: "Func (Suc ?k) (caller (set_match (search (regexp nxt) line) s1))
               \<in> set (fst (handle_line search srv con line w))"
    if p: "post = nxt # rest" and e: "eligible search line nxt s1" for nxt rest
  proof -
    from dispatch_prefix [of search srv line "Suc ?k" post s1]
      for_commands_Cons_prefix [of search srv line "Suc ?k" nxt rest s1]
    obtain tr1 tr2 where
      "fst (dispatch search srv line (Suc ?k) post s1) =
         (fst (loop_body search srv line (Suc ?k) nxt s1) @ tr1) @ tr2"
      unfolding p by metis
    with loop_body_eligible_Func [OF e, of "Suc ?k" srv] show ?thesis
      by (auto simp: run split: prod.splits)
  qed
  have ret: "snd (handle_line search srv con line w) = Returns () s2
               \<and> filter is_Huh (fst (handle_line search srv con line w)) = []
               \<and> filter is_On_error (fst (handle_line search srv con line w)) = []
               \<and> filter is_Log (fst (handle_line search srv con line w)) = []"
    if p: "post = nxt # rest" and e: "eligible search line nxt s1"
      and r: "func nxt (set_match (search (regexp nxt) line) s1) = Returns () s2"
    for nxt rest s2
    using ev0 by (simp add: run p dispatch_returns [OF e r])
  show ?thesis
    using nxt ret by (simp add: run)
qed

subsection \<open>The properties on the small server\<close>

lemma look_start:
  "\<lparr>caller = Caller (Some 0) (Some (str ''look'')), world = []\<rparr>
     = (\<lparr>caller = look_caller None, world = []\<rparr> :: ex_state)"
  by (simp add: Caller_def look_caller_def)


theorem on_command_false_suppresses_dispatch_witness:
  "handle_line literal_search
     ((Server send_line [cmd_lo, cmd_look])\<lparr>on_command := \<lambda>s. Returns False s\<rparr>)
     (Some 0) (str ''look'') []
   = ([On_command (look_caller None)], Returns () \<lparr>caller = look_caller None, world = []\<rparr>)"
proof -
  have "on_command ((Server send_line [cmd_lo, cmd_look])\<lparr>on_command := \<lambda>s. Returns False s\<rparr>)
          \<lparr>caller = Caller (Some 0) (Some (str ''look'')), world = []\<rparr>
        = Returns False \<lparr>caller = look_caller None, world = []\<rparr>"
    by (simp add: look_start)
  from on_command_false_suppresses_dispatch [OF this, of literal_search]
  show ?thesis by (simp add: Caller_def look_caller_def)
qed

theorem no_eligible_command_runs_huh_witness:
  "handle_line literal_search (Server send_line [cmd_admin, cmd_quit]) (Some 0) (str ''look'') []
   = ([On_command (look_caller None), Search 0 (Some 1), Search 1 None, Huh (look_caller None)],
      Returns () \<lparr>caller = look_caller None, world = [''I don't understand that.'']\<rparr>)"
proof -
  let ?s = "\<lparr>caller = look_caller None, world = []\<rparr> :: ex_state"
  let ?srv = "Server send_line [cmd_admin, cmd_quit]"
  have go: "on_command ?srv \<lparr>caller = Caller (Some 0) (Some (str ''look'')), world = []\<rparr>
              = Returns True ?s"
    by (simp add: Server_def default_on_command_def look_start)
  have none: "\<forall>cmd \<in> set (commands ?srv). \<not> eligible literal_search (str ''look'') cmd ?s"
    by (simp add: Server_def eligible_def cmd_admin_def cmd_quit_def look_caller_def str_def)
  have h: "huh ?srv = default_huh send_line \<and> connection (caller ?s) = Some 0"
    by (simp add: Server_def look_caller_def)
  from no_eligible_command_runs_huh [OF go none] h
  have run: "handle_line literal_search ?srv (Some 0) (str ''look'') [] =
           (On_command (Caller (Some 0) (Some (str ''look''))) #
              searches literal_search (str ''look'') 0 (commands ?srv)
              @ [Huh (caller (set_match None ?s))],
            huh ?srv (set_match None ?s))"
    and out: "snd (handle_line literal_search ?srv (Some 0) (str ''look'') []) =
                 send_line 0 ''I don't understand that.'' (set_match None ?s)"
    by blast+
  have tr: "fst (handle_line literal_search ?srv (Some 0) (str ''look'') []) =
      [On_command (look_caller None), Search 0 (Some 1), Search 1 None, Huh (look_caller None)]"
    unfolding run
    by (simp add: Server_def Caller_def look_caller_def cmd_admin_def cmd_quit_def str_def)
  have "snd (handle_line literal_search ?srv (Some 0) (str ''look'') []) =
      Returns () \<lparr>caller = look_caller None, world = [''I don't understand that.'']\<rparr>"
    unfolding out by (simp add: send_line_def look_caller_def)
  with tr show ?thesis by (simp add: prod_eq_iff)
qed

theorem handler_exception_goes_to_on_error_witness:
  "handle_line literal_search (Server send_line [cmd_admin, cmd_skip, cmd_break, cmd_quit])
     (Some 0) (str ''look'') []
   = ([On_command (look_caller None), Search 0 (Some 1), Search 1 (Some 0),
       Func 1 (look_caller (Some 0)), Search 2 (Some 0), Func 2 (look_caller (Some 0)),
       Log_threw 2, Log_exception (Exception ''ValueError''),
       On_error ((look_caller (Some 0))\<lparr>exception := Some (Exception ''ValueError'')\<rparr>)],
      Returns ()
        \<lparr>caller = (look_caller (Some 0))\<lparr>exception := Some (Exception ''ValueError'')\<rparr>,
         world = [''skip'', ''There was an error with your command.'']\<rparr>)"
proof -
  let ?s = "\<lparr>caller = look_caller None, world = []\<rparr> :: ex_state"
  let ?sa = "\<lparr>caller = look_caller (Some 0), world = [''skip'']\<rparr> :: ex_state"
  let ?srv = "Server send_line [cmd_admin, cmd_skip, cmd_break, cmd_quit]"
  let ?tra = "[Search 0 (Some 1), Search 1 (Some 0), Func 1 (look_caller (Some 0))]
                :: (nat, nat) event list"
  have go: "on_command ?srv \<lparr>caller = Caller (Some 0) (Some (str ''look'')), world = []\<rparr>
              = Returns True ?s"
    by (simp add: Server_def default_on_command_def look_start)
  have cmds: "commands ?srv = [cmd_admin, cmd_skip] @ cmd_break # [cmd_quit]"
    by (simp add: Server_def)
  have reach: "for_commands literal_search ?srv (str ''look'') 0 [cmd_admin, cmd_skip] ?s
                 = (?tra, Returns Continue ?sa)"
    by (simp add: loop_body_def cmd_admin_def cmd_skip_def look_caller_def str_def)
  have el: "eligible literal_search (str ''look'') cmd_break ?sa"
    by (simp add: eligible_def cmd_break_def str_def)
  have raise: "func cmd_break (set_match (literal_search (regexp cmd_break) (str ''look'')) ?sa)
                 = Raises (Exception ''ValueError'') ?sa"
    by (simp add: cmd_break_def str_def look_caller_def)
  have h: "on_error ?srv = default_on_error send_line \<and> connection (caller ?sa) = Some 0"
    by (simp add: Server_def look_caller_def)
  note main = handler_exception_goes_to_on_error [OF go cmds reach el raise]
  note run = main [THEN conjunct1]
  note out = main [THEN conjunct2, THEN conjunct2, THEN conjunct2, THEN conjunct2,
                  THEN conjunct2, rule_format, OF h]
  have tr: "fst (handle_line literal_search ?srv (Some 0) (str ''look'') []) =
      [On_command (look_caller None), Search 0 (Some 1), Search 1 (Some 0),
       Func 1 (look_caller (Some 0)), Search 2 (Some 0), Func 2 (look_caller (Some 0)),
       Log_threw 2, Log_exception (Exception ''ValueError''),
       On_error ((look_caller (Some 0))\<lparr>exception := Some (Exception ''ValueError'')\<rparr>)]"
    unfolding run by (simp add: Caller_def look_caller_def cmd_break_def str_def)
  have "snd (handle_line literal_search ?srv (Some 0) (str ''look'') []) =
      Returns ()
        \<lparr>caller = (look_caller (Some 0))\<lparr>exception := Some (Exception ''ValueError'')\<rparr>,
         world = [''skip'', ''There was an error with your command.'']\<rparr>"
    unfolding out by (simp add: send_line_def)
  with tr show ?thesis by (simp add: prod_eq_iff)
qed

text \<open>
  Claim C3 as stated fails for a fault that is not an \<open>Exception\<close>: the handler of
  \<open>cmd_quit\<close> raises \<open>SystemExit\<close>, which is not the skip; \<open>handle_line\<close> lets it through,
  the Caller's \<open>exception\<close> field stays \<open>None\<close>, \<open>on_error\<close> is not called and nothing is
  sent.
\<close>

theorem base_exception_not_caught_counterexample:
  "func cmd_quit \<lparr>caller = (Caller (Some 0) (Some (str ''quit'')))\<lparr>match := Some 0\<rparr>, world = []\<rparr>
     = Raises (BaseException ''SystemExit'')
         \<lparr>caller = (Caller (Some 0) (Some (str ''quit'')))\<lparr>match := Some 0\<rparr>, world = []\<rparr>
   \<and> BaseException ''SystemExit'' \<noteq> DontStopException
   \<and> handle_line literal_search (Server send_line [cmd_quit]) (Some 0) (str ''quit'') []
     = ([On_command (Caller (Some 0) (Some (str ''quit''))), Search 0 (Some 0),
         Func 0 ((Caller (Some 0) (Some (str ''quit'')))\<lparr>match := Some 0\<rparr>)],
        Raises (BaseException ''SystemExit'')
          \<lparr>caller = \<lparr>connection = Some 0, text' = Some (str ''quit''), match = Some 0,
                      exception = None\<rparr>,
           world = []\<rparr>)"
  by (simp add: handle_line_def dispatch_def loop_body_def Server_def default_on_command_def
        cmd_quit_def Caller_def str_def)

theorem skip_proceeds_to_next_command_witness:
  "handle_line literal_search (Server send_line [cmd_admin, cmd_skip, cmd_look, cmd_quit])
     (Some 0) (str ''look'') []
   = ([On_command (look_caller None), Search 0 (Some 1), Search 1 (Some 0),
       Func 1 (look_caller (Some 0)), Search 2 (Some 0), Func 2 (look_caller (Some 0))],
      Returns () \<lparr>caller = look_caller (Some 0), world = [''skip'', ''look'']\<rparr>)"
proof -
  let ?s = "\<lparr>caller = look_caller None, world = []\<rparr> :: ex_state"
  let ?sa = "\<lparr>caller = look_caller (Some 1), world = []\<rparr> :: ex_state"
  let ?sb = "\<lparr>caller = look_caller (Some 0), world = [''skip'']\<rparr> :: ex_state"
  let ?srv = "Server send_line [cmd_admin, cmd_skip, cmd_look, cmd_quit]"
  let ?tra = "[Search 0 (Some 1)] :: (nat, nat) event list"
  have go: "on_command ?srv \<lparr>caller = Caller (Some 0) (Some (str ''look'')), world = []\<rparr>
              = Returns True ?s"
    by (simp add: Server_def default_on_command_def look_start)
  have cmds: "commands ?srv = [cmd_admin] @ cmd_skip # [cmd_look, cmd_quit]"
    by (simp add: Server_def)
  have reach: "for_commands literal_search ?srv (str ''look'') 0 [cmd_admin] ?s
                 = (?tra, Returns Continue ?sa)"
    by (simp add: loop_body_def cmd_admin_def look_caller_def str_def)
  have el: "eligible literal_search (str ''look'') cmd_skip ?sa"
    by (simp add: eligible_def cmd_skip_def str_def)
  have skip: "func cmd_skip (set_match (literal_search (regexp cmd_skip) (str ''look'')) ?sa)
                 = Raises DontStopException ?sb"
    by (simp add: cmd_skip_def str_def look_caller_def)
  have rest: "dispatch literal_search ?srv (str ''look'') (Suc (length [cmd_admin]))
                [cmd_look, cmd_quit] ?sb
              = ([Search 2 (Some 0), Func 2 (look_caller (Some 0))],
                 Returns () \<lparr>caller = look_caller (Some 0), world = [''skip'', ''look'']\<rparr>)"
    by (simp add: dispatch_def loop_body_def cmd_look_def leave_note_def look_caller_def str_def)
  from skip_proceeds_to_next_command [OF go cmds reach el skip]
  have "handle_line literal_search ?srv (Some 0) (str ''look'') [] =
           (case dispatch literal_search ?srv (str ''look'') (Suc (length [cmd_admin]))
                   [cmd_look, cmd_quit] ?sb of
              (tr', r) \<Rightarrow>
                (On_command (Caller (Some 0) (Some (str ''look''))) # ?tra @
                   [Search (length [cmd_admin]) (literal_search (regexp cmd_skip) (str ''look'')),
                    Func (length [cmd_admin])
                      (caller (set_match (literal_search (regexp cmd_skip) (str ''look'')) ?sa))]
                   @ tr',
                 r))"
    by blast
  then show ?thesis
    unfolding rest by (simp add: Caller_def look_caller_def cmd_skip_def str_def)
qed

section \<open>Properties of the connection\<close>

lemma on_decode_error_lossy:
  "errs \<noteq> Strict \<Longrightarrow> \<exists>t. rest = Inr t \<Longrightarrow> \<exists>t. on_decode_error errs rest = Inr t"
  by (cases errs) (auto simp: on_decode_error_def)

lemma utf8_decode_lossy:
  "errs \<noteq> Strict \<Longrightarrow> \<exists>t. utf8_decode errs bs = Inr t"
proof (induction errs bs rule: utf8_decode.induct)
  case (1 errs)
  then show ?case by simp
next
  case (2 errs b bs)
  obtain r n where st: "utf8_step (b # bs) = (r, n)"
    by (cases "utf8_step (b # bs)")
  show ?case
  proof (cases r)
    case None
    from "2.IH"(1) [OF st [symmetric] None "2.prems"]
    have "\<exists>t. utf8_decode errs (drop (n - 1) bs) = Inr t" .
    from on_decode_error_lossy [OF "2.prems" this] show ?thesis
      using st None by (simp del: utf8_step.simps)
  next
    case (Some cp)
    from "2.IH"(2) [OF st [symmetric] Some "2.prems"]
    obtain t where "utf8_decode errs (drop (n - 1) bs) = Inr t" by auto
    then show ?thesis using st Some by (simp del: utf8_step.simps)
  qed
qed

lemma ascii_decode_lossy:
  "errs \<noteq> Strict \<Longrightarrow> \<exists>t. ascii_decode errs bs = Inr t"
proof (induction bs)
  case Nil
  then show ?case by simp
next
  case (Cons b bs)
  then obtain t where t: "ascii_decode errs bs = Inr t" by auto
  show ?case
  proof (cases "b < 0x80")
    case True
    then show ?thesis using t by simp
  next
    case False
    from on_decode_error_lossy [OF Cons.prems, of "ascii_decode errs bs"] t False
    show ?thesis by simp
  qed
qed

lemma decode_lossy:
  "errs \<noteq> Strict \<Longrightarrow> \<exists>t. decode (enc, errs) line = Inr t"
  by (cases enc) (simp_all add: decode_def utf8_decode_lossy ascii_decode_lossy)

text \<open>
  Claim C9. When the error handler of the connection's \<open>decode_args\<close> is not \<open>strict\<close>
  (the default is \<open>ignore\<close>), decoding a line gives a text for every byte sequence, it
  never raises; and when the connection has a parser, \<open>lineReceived\<close> makes one call, the
  parser's \<open>handle_line\<close> with the connection and the decoded text, and ends as that call
  ends.
\<close>

theorem lossy_decoding_never_raises:
  assumes "snd (decode_args (protocols s self)) \<noteq> Strict"
  shows "\<exists>line'. decode (decode_args (protocols s self)) line = Inr line'
           \<and> (\<forall>p. parser (protocols s self) = Some p \<longrightarrow>
                 lineReceived hk self line s =
                   ([Handle_line p self line'], parser_handle_line hk p self line' s))"
proof -
  obtain enc errs where args: "decode_args (protocols s self) = (enc, errs)"
    by (cases "decode_args (protocols s self)")
  with assms have "errs \<noteq> Strict" by simp
  from decode_lossy [OF this, of enc line] obtain t where
    t: "decode (decode_args (protocols s self)) line = Inr t" unfolding args by blast
  then show ?thesis
    by (simp add: lineReceived_def parser_getter_def)
qed

text \<open>
  The setter on a server that has a default parser, when the hooks return (and, for
  \<open>value = None\<close>, the connection has its logger): the calls are, in order, the detach hook
  of the parser that was attached, if there was one, with \<open>value\<close> as given; for
  \<open>value = None\<close> the warning, with the server's default parser taking the place of
  \<open>value\<close>; the attach hook of the new parser \<open>new\<close> (\<open>value\<close> or the default) with the
  parser that was attached before. The attach hook finds \<open>new\<close> as the connection's
  parser, and \<open>new\<close> is the parser after the operation when the attach hook does not
  itself assign another.
\<close>

lemma parser_setter_order:
  assumes detach: "case parser (protocols s self) of
                     None \<Rightarrow> s1 = s
                   | Some old \<Rightarrow> on_detach hk old self value s = Returns () s1"
    and new: "case value of
                None \<Rightarrow> default_parser s1 = Some new \<and> logger (protocols s1 self) \<noteq> None
              | Some v \<Rightarrow> new = v"
    and attach: "on_attach hk new self (parser (protocols s self))
                   (set_parser self (Some new) s1) = Returns () s2"
  shows "parser_setter hk self value s =
           ((case parser (protocols s self) of None \<Rightarrow> [] | Some old \<Rightarrow> [Detach old self value])
            @ (case value of None \<Rightarrow> [Warning new] | Some _ \<Rightarrow> [])
            @ [Attach new self (parser (protocols s self))],
            Returns () s2)
         \<and> parser_getter self (set_parser self (Some new) s1) = Some new
         \<and> (parser_getter self s2 = parser_getter self (set_parser self (Some new) s1) \<longrightarrow>
              parser_getter self s2 = Some new)"
proof -
  have run: "parser_setter hk self value s =
           ((case parser (protocols s self) of None \<Rightarrow> [] | Some old \<Rightarrow> [Detach old self value])
            @ (case value of None \<Rightarrow> [Warning new] | Some _ \<Rightarrow> [])
            @ [Attach new self (parser (protocols s self))],
            Returns () s2)"
  proof (cases "parser (protocols s self)")
    case None
    with detach have s1: "s1 = s" by simp
    show ?thesis
      using new attach
      by (cases "value") (auto simp: parser_setter_def Let_def None s1)
  next
    case (Some old)
    with detach have d: "on_detach hk old self value s = Returns () s1" by simp
    show ?thesis
      using new attach d
      by (cases "value") (auto simp: parser_setter_def Let_def Some)
  qed
  show ?thesis
    by (simp add: run parser_getter_def)
qed

text \<open>
  Claim C6, on the server of \<open>server.py\<close>. The class \<open>Server\<close> has no \<open>default_parser\<close>.
  Setting the parser to \<open>None\<close> then calls the detach hook of the parser that was
  attached, if there was one, and raises \<open>AttributeError\<close> where the default parser is
  read: no default is substituted, no warning is logged, no attach hook is called, and
  the connection is left in the state the detach hook left, the detached parser still its
  parser.
\<close>

theorem setter_None_without_default_parser:
  assumes detach: "case parser (protocols s self) of
                     None \<Rightarrow> s1 = s
                   | Some old \<Rightarrow> on_detach hk old self None s = Returns () s1"
    and absent: "default_parser s1 = None"
  shows "parser_setter hk self None s =
           ((case parser (protocols s self) of None \<Rightarrow> [] | Some old \<Rightarrow> [Detach old self None]),
            Raises (Exception ''AttributeError'') s1)"
proof (cases "parser (protocols s self)")
  case None
  with detach have "s1 = s" by simp
  with absent show ?thesis
    by (simp add: parser_setter_def Let_def None)
next
  case (Some old)
  with detach have "on_detach hk old self None s = Returns () s1" by simp
  with absent show ?thesis
    by (simp add: parser_setter_def Let_def Some)
qed

text \<open>
  Claim C10. Setting the parser to \<open>None\<close> while the parser \<open>old\<close> is attached: the first
  call is the detach hook of \<open>old\<close> with \<open>None\<close> as the replacement, and that is the only
  call of a detach hook. The default parser comes in after it: where the server has one,
  in the warning and as the parser whose attach hook is called; where it has none, the
  detach hook's call is the only call.
\<close>

theorem detach_hook_receives_None:
  assumes "parser (protocols s self) = Some old"
  shows "hd (fst (parser_setter hk self None s)) = Detach old self None
         \<and> filter is_Detach (fst (parser_setter hk self None s)) = [Detach old self None]
         \<and> (\<forall>s1 l d. on_detach hk old self None s = Returns () s1
                \<and> default_parser s1 = Some d \<and> logger (protocols s1 self) = Some l \<longrightarrow>
              fst (parser_setter hk self None s) =
                [Detach old self None, Warning d, Attach d self (Some old)])
         \<and> (\<forall>s1. on_detach hk old self None s = Returns () s1
                \<and> default_parser s1 = None \<longrightarrow>
              fst (parser_setter hk self None s) = [Detach old self None])"
  using assms
  by (auto simp: parser_setter_def Let_def split: result.splits option.splits)










subsection \<open>The properties on the small connection\<close>

lemma decode_ignore_drops_invalid_byte:
  "decode (UTF8, Ignore) [CHR ''h'', CHR 0xFF, CHR ''i''] = Inr (str ''hi'')"
  by (simp add: decode_def str_def on_decode_error_def)

lemma decode_ignore_resumes_after_truncated_sequence:
  "decode (UTF8, Ignore) [CHR 0xE2, CHR 0x82, CHR 0xAC, CHR 0xE2, CHR 0x82, CHR ''A''] = Inr [0x20AC, 65]"
  by (simp add: decode_def str_def on_decode_error_def continuation_def)

lemma decode_replace_marks_each_error:
  "decode (UTF8, Replace) [CHR 0xE2, CHR 0x82, CHR 0xAC, CHR 0xE2, CHR 0x82, CHR ''A'', CHR 0xF0, CHR 0x9F] = Inr [0x20AC, 0xFFFD, 65, 0xFFFD]"
  by (simp add: decode_def str_def on_decode_error_def continuation_def)

lemma decode_strict_raises:
  "decode (UTF8, Strict) [CHR ''h'', CHR 0xFF, CHR ''i''] = Inl (Exception ''UnicodeDecodeError'')"
  by (simp add: decode_def str_def on_decode_error_def)

theorem lossy_decoding_never_raises_witness:
  "snd (decode_args (protocols (ex_system (Some ''main'') None) 0)) = Ignore
   \<and> lineReceived ex_hooks 0 [CHR ''h'', CHR 0xFF, CHR ''i''] (ex_system (Some ''main'') None)
     = ([Handle_line ''main'' 0 (str ''hi'')],
        Returns () ((ex_system (Some ''main'') None)\<lparr>env := [''line for main'']\<rparr>))"
proof -
  let ?sys = "ex_system (Some ''main'') None"
  let ?line = "[CHR ''h'', CHR 0xFF, CHR ''i'']"
  have args: "decode_args (protocols ?sys 0) = (UTF8, Ignore)"
    by (simp add: ex_system_def Protocol_def)
  then have lossy: "snd (decode_args (protocols ?sys 0)) \<noteq> Strict" by simp
  have p: "parser (protocols ?sys 0) = Some ''main''"
    by (simp add: ex_system_def Protocol_def)
  have d: "decode (decode_args (protocols ?sys 0)) ?line = Inr (str ''hi'')"
    unfolding args by (simp add: decode_def str_def on_decode_error_def)
  from lossy_decoding_never_raises [OF lossy, of ?line ex_hooks] p d
  have "lineReceived ex_hooks 0 ?line ?sys =
          ([Handle_line ''main'' 0 (str ''hi'')],
           parser_handle_line ex_hooks ''main'' 0 (str ''hi'') ?sys)"
    by auto
  then show ?thesis
    using args by (simp add: ex_hooks_def ex_system_def)
qed

lemma parser_setter_order_example:
  "parser_setter ex_hooks 0 None (ex_system (Some ''menu'') (Some (''127.0.0.1'', 1987)))
   = ([Detach ''menu'' 0 None, Warning ''main'', Attach ''main'' 0 (Some ''menu'')],
      Returns ()
        ((set_parser 0 (Some ''main'') (ex_system (Some ''menu'') (Some (''127.0.0.1'', 1987))))
           \<lparr>env := [''detach menu'', ''attach main'']\<rparr>))
   \<and> parser_getter 0
        ((set_parser 0 (Some ''main'') (ex_system (Some ''menu'') (Some (''127.0.0.1'', 1987))))
           \<lparr>env := [''detach menu'', ''attach main'']\<rparr>) = Some ''main''"
proof -
  let ?sys = "ex_system (Some ''menu'') (Some (''127.0.0.1'', 1987))"
  let ?sa = "?sys\<lparr>env := [''detach menu'']\<rparr>"
  let ?sb = "(set_parser 0 (Some ''main'') ?sys)\<lparr>env := [''detach menu'', ''attach main'']\<rparr>"
  have detach: "case parser (protocols ?sys 0) of
                  None \<Rightarrow> ?sa = ?sys
                | Some old \<Rightarrow> on_detach ex_hooks old 0 None ?sys = Returns () ?sa"
    by (simp add: ex_system_def Protocol_def ex_hooks_def)
  have new: "case (None :: string option) of
               None \<Rightarrow> default_parser ?sa = Some ''main'' \<and> logger (protocols ?sa 0) \<noteq> None
             | Some v \<Rightarrow> ''main'' = v"
    by (simp add: ex_system_def)
  have attach: "on_attach ex_hooks ''main'' 0 (parser (protocols ?sys 0))
                   (set_parser 0 (Some ''main'') ?sa) = Returns () ?sb"
    by (simp add: ex_hooks_def ex_system_def)
  note main = parser_setter_order [OF detach new attach]
  have run: "parser_setter ex_hooks 0 None ?sys =
     ([Detach ''menu'' 0 None, Warning ''main'', Attach ''main'' 0 (Some ''menu'')], Returns () ?sb)"
    unfolding main [THEN conjunct1] by (simp add: ex_system_def Protocol_def)
  have "parser_getter 0 ?sb = Some ''main''"
    by (simp add: parser_getter_def)
  with run show ?thesis by simp
qed

theorem setter_None_without_default_parser_witness:
  "default_parser (plain_system (Some ''menu'') (Some (''127.0.0.1'', 1987))) = None
   \<and> parser_setter ex_hooks 0 None (plain_system (Some ''menu'') (Some (''127.0.0.1'', 1987)))
     = ([Detach ''menu'' 0 None],
        Raises (Exception ''AttributeError'')
          ((plain_system (Some ''menu'') (Some (''127.0.0.1'', 1987)))\<lparr>env := [''detach menu'']\<rparr>))
   \<and> parser_getter 0
        ((plain_system (Some ''menu'') (Some (''127.0.0.1'', 1987)))\<lparr>env := [''detach menu'']\<rparr>)
      = Some ''menu''"
proof -
  let ?sys = "plain_system (Some ''menu'') (Some (''127.0.0.1'', 1987))"
  let ?sa = "?sys\<lparr>env := [''detach menu'']\<rparr>"
  have p: "parser (protocols ?sys 0) = Some ''menu''"
    by (simp add: plain_system_def ex_system_def Protocol_def)
  have detach: "case parser (protocols ?sys 0) of
                  None \<Rightarrow> ?sa = ?sys
                | Some old \<Rightarrow> on_detach ex_hooks old 0 None ?sys = Returns () ?sa"
    by (simp add: ex_hooks_def plain_system_def ex_system_def Protocol_def)
  have absent: "default_parser ?sa = None"
    by (simp add: plain_system_def)
  have absent0: "default_parser ?sys = None"
    by (simp add: plain_system_def)
  have after: "parser_getter 0 ?sa = Some ''menu''"
    by (simp add: parser_getter_def plain_system_def ex_system_def Protocol_def)
  from setter_None_without_default_parser [OF detach absent] p absent0 after
  show ?thesis by simp
qed

theorem detach_hook_receives_None_witness:
  "parser (protocols (ex_system (Some ''menu'') (Some (''127.0.0.1'', 1987))) 0) = Some ''menu''
   \<and> default_parser (ex_system (Some ''menu'') (Some (''127.0.0.1'', 1987))) = Some ''main''
   \<and> hd (fst (parser_setter ex_hooks 0 None
                (ex_system (Some ''menu'') (Some (''127.0.0.1'', 1987)))))
      = Detach ''menu'' 0 None
   \<and> filter is_Detach (fst (parser_setter ex_hooks 0 None
                (ex_system (Some ''menu'') (Some (''127.0.0.1'', 1987)))))
      = [Detach ''menu'' 0 None]
   \<and> hd (fst (parser_setter ex_hooks 0 None
                (plain_system (Some ''menu'') (Some (''127.0.0.1'', 1987)))))
      = Detach ''menu'' 0 None"
proof -
  let ?sys = "ex_system (Some ''menu'') (Some (''127.0.0.1'', 1987))"
  let ?plain = "plain_system (Some ''menu'') (Some (''127.0.0.1'', 1987))"
  have p: "parser (protocols ?sys 0) = Some ''menu''"
    by (simp add: ex_system_def Protocol_def)
  have q: "parser (protocols ?plain 0) = Some ''menu''"
    by (simp add: plain_system_def ex_system_def Protocol_def)
  have d: "default_parser ?sys = Some ''main''"
    by (simp add: ex_system_def)
  from detach_hook_receives_None [OF p, of ex_hooks]
    detach_hook_receives_None [OF q, of ex_hooks] p d
  show ?thesis by simp
qed

text \<open>
  Two connections with equal attributes: \<open>connectionLost\<close> on the second removes the
  first from the server's list.
\<close>

lemma connectionLost_removes_first_equal:
  "connections (final_state (snd (connectionLost ex_hooks 1 ''closed''
      ((ex_system (Some ''menu'') (Some (''127.0.0.1'', 1987)))\<lparr>connections := [0, 1]\<rparr>))))
   = [1]"
  by (simp add: connectionLost_def Let_def same_connection_def attrs_eq_def ex_system_def
        ex_hooks_def)




section \<open>Properties of the menu\<close>





subsection \<open>The menu of the test, resolved\<close>




end
